theory Spec2Isabelle
  imports Main "HOL-Library.Word"
begin

section \<open>Messages (netdata.go part of teleport.go)\<close>

text \<open>
  Go strings and byte slices are sequences of bytes; both are lists of \<open>char\<close> here
  (a \<open>char\<close> is one byte).  \<open>NetData.Body\<close> is an \<open>interface{}\<close>: the code stores a
  string (\<open>ReturnError\<close>), a byte slice (the receive path) or nothing (a fresh record).
\<close>

type_synonym bytes = "char list"

datatype body = NoBody | BodyString string | BodyBytes bytes

definition SUCCESS :: int where "SUCCESS = 0"
definition FAILURE :: int where "FAILURE = - 1"
definition LLLEGAL :: int where "LLLEGAL = - 2"

record NetData =
  Body :: body
  Operation :: string
  UID :: string
  From :: string
  To :: string
  Status :: int

text \<open>\<open>new(NetData)\<close>: every field has its zero value.\<close>

definition new_NetData :: NetData where
  "new_NetData =
     \<lparr>Body = NoBody, Operation = [], UID = [], From = [], To = [], Status = 0\<rparr>"

definition NewNetData :: "string \<Rightarrow> string \<Rightarrow> string \<Rightarrow> body \<Rightarrow> NetData" where
  "NewNetData from to operation b =
     \<lparr>Body = b, Operation = operation, UID = [], From = from, To = to, Status = SUCCESS\<rparr>"

text \<open>
  \<open>ReturnData\<close> and \<open>ReturnError\<close>.  The variadic string arguments are a list.
  \<open>ReturnError\<close> writes through its pointer argument; the model returns the updated record.
\<close>

definition ReturnData :: "body \<Rightarrow> string list \<Rightarrow> NetData" where
  "ReturnData b OpAndToAndFrom =
     (let data = new_NetData\<lparr>Status := SUCCESS, Body := b\<rparr>;
          data = (if length OpAndToAndFrom > 0 then data\<lparr>Operation := OpAndToAndFrom ! 0\<rparr> else data);
          data = (if length OpAndToAndFrom > 1 then data\<lparr>To := OpAndToAndFrom ! 1\<rparr> else data);
          data = (if length OpAndToAndFrom > 2 then data\<lparr>From := OpAndToAndFrom ! 2\<rparr> else data)
      in data)"

definition ReturnError :: "NetData \<Rightarrow> int \<Rightarrow> string \<Rightarrow> string list \<Rightarrow> NetData" where
  "ReturnError receive status msg nodeuid =
     (let receive = receive\<lparr>Status := status\<rparr>;
          receive = receive\<lparr>Body := BodyString msg\<rparr>
      in if length nodeuid > 0 then receive\<lparr>To := nodeuid ! 0\<rparr> else receive\<lparr>To := []\<rparr>)"

text \<open>
  Modelled from the spec: the generated protobuf record \<open>NetDataProto\<close> and its getters are
  not part of the source file.  The spec fixes a schema of the six fields of a message with
  \<open>Body\<close> a byte string; \<open>send\<close> fills the string and status fields through pointers
  (\<open>proto.String\<close>, \<open>proto.Int64\<close>), so they are optional here and a getter returns
  the zero value for an absent field.  The status on the wire is an \<open>int64\<close>.
\<close>

record NetDataProto =
  pBody :: bytes
  pOperation :: "string option"
  pUID :: "string option"
  pFrom :: "string option"
  pTo :: "string option"
  pStatus :: "64 word option"

definition GetBody :: "NetDataProto \<Rightarrow> bytes" where
  "GetBody p = pBody p"

definition GetOperation :: "NetDataProto \<Rightarrow> string" where
  "GetOperation p = (case pOperation p of None \<Rightarrow> [] | Some s \<Rightarrow> s)"

definition GetUID :: "NetDataProto \<Rightarrow> string" where
  "GetUID p = (case pUID p of None \<Rightarrow> [] | Some s \<Rightarrow> s)"

definition GetFrom :: "NetDataProto \<Rightarrow> string" where
  "GetFrom p = (case pFrom p of None \<Rightarrow> [] | Some s \<Rightarrow> s)"

definition GetTo :: "NetDataProto \<Rightarrow> string" where
  "GetTo p = (case pTo p of None \<Rightarrow> [] | Some s \<Rightarrow> s)"

definition GetStatus :: "NetDataProto \<Rightarrow> 64 word" where
  "GetStatus p = (case pStatus p of None \<Rightarrow> 0 | Some i \<Rightarrow> i)"

text \<open>
  The conversion \<open>int(x)\<close> of an \<open>int64\<close>.  Go's \<open>int\<close> is 32 or 64 bits wide,
  depending on the platform; \<open>intSize\<close> is that width.  The conversion keeps the low
  \<open>intSize\<close> bits, read as a signed number: on a 64-bit platform it keeps the value, on a
  32-bit platform it truncates.
\<close>

definition int_of_int64 :: "nat \<Rightarrow> 64 word \<Rightarrow> int" where
  "int_of_int64 intSize x = signed_take_bit (intSize - 1) (sint x)"

text \<open>
  The failures of the code: the panic of a method call through a nil connection pointer,
  the panic of an assignment to an entry of a nil map, and the error that
  \<open>proto.Unmarshal\<close> returns for a payload it cannot decode.
\<close>

datatype error = NilPointerDereference | NilMapAssignment | UnmarshalError

section \<open>Connections and the node\<close>

text \<open>
  Modelled from the spec: the type \<open>Connect\<close> and its method \<open>Close\<close> are declared
  outside the source file.  The fields the source reads and writes are kept (\<open>UID\<close>,
  \<open>IsShort\<close>, \<open>WriteChan\<close>, \<open>TmpBuffer\<close>), with a flag \<open>closed\<close> for the state of the
  socket.  A channel is the list of the messages queued in it, oldest first.  By the
  spec, closing a connection shuts the socket and drains the queued outbound messages
  without delivering them, and closing twice is closing once.
\<close>

record Connect =
  UID :: string
  IsShort :: bool
  WriteChan :: "NetData list"
  TmpBuffer :: bytes
  closed :: bool

definition conn_Close :: "Connect \<Rightarrow> Connect" where
  "conn_Close c = c\<lparr>WriteChan := [], closed := True\<rparr>"

text \<open>
  A handler receives a pointer to the request.  It may write through it, and it returns
  nil, the very same pointer, or a pointer to another message: the three cases of
  \<open>reply\<close>.  A handler is the function from the request to the request as the handler
  left it, with the reply.
\<close>

datatype reply = NoReply | SameMsg | Fresh NetData

type_synonym Handle = "NetData \<Rightarrow> NetData \<times> reply"

text \<open>The listener is an object that \<open>Close\<close> stops; \<open>None\<close> is the nil interface.\<close>

datatype Listener = Listener (listening: bool)

definition SERVER :: int where "SERVER = 1"
definition CLIENT :: int where "CLIENT = 2"

definition IDENTITY :: string where "IDENTITY = ''+identity+''"
definition HEARTBEAT :: string where "HEARTBEAT = ''+heartbeat+''"

text \<open>
  The pool maps a UID to a pointer to a connection; connection objects live in a store
  (\<open>conns\<close> below), so that two keys of the pool may denote one object.  A key that is
  absent yields the nil pointer, \<open>None\<close>.

  The handler table is a Go map, and a value of a map type may be nil: \<open>SetAPI\<close> stores
  whatever table it is given.  A nil map reads as the empty map and panics on assignment,
  so the table is optional, \<open>None\<close> being the nil map.  The source only reads the pool
  and deletes from it, which a nil map allows as the empty map does, so the pool is a
  plain map.
\<close>

type_synonym API = "(string \<rightharpoonup> Handle) option"

type_synonym conn_ref = nat

record TP =
  uid :: string
  mode :: int
  port :: string
  serverAddr :: string
  listener :: "Listener option"
  canClose :: bool
  connPool :: "string \<rightharpoonup> conn_ref"
  timeout :: int
  packHeader :: string
  apiReadChan :: "NetData list"
  connWChanCap :: int
  connBufferLen :: int
  api :: API

record world =
  self :: TP
  conns :: "conn_ref \<Rightarrow> Connect"

definition New :: TP where
  "New = \<lparr>uid = [], mode = 0, port = [], serverAddr = [], listener = None,
           canClose = False, connPool = Map.empty, timeout = 0,
           packHeader = ''henrylee2cn'', apiReadChan = [],
           connWChanCap = 2048, connBufferLen = 1024, api = Some Map.empty\<rparr>"

subsection \<open>Reserved handlers\<close>

definition identity_Process :: Handle where
  "identity_Process receive = (receive\<lparr>From := To receive, To := From receive\<rparr>, SameMsg)"

definition heartbeat_Process :: Handle where
  "heartbeat_Process receive = (receive, NoReply)"

text \<open>
  \<open>self.api[operation]\<close> read with the comma-ok form, and the assignment
  \<open>self.api[key] = handle\<close>, which panics on the nil map.
\<close>

definition api_get :: "TP \<Rightarrow> string \<Rightarrow> Handle option" where
  "api_get tp operation = (case api tp of None \<Rightarrow> None | Some table \<Rightarrow> table operation)"

definition api_set :: "TP \<Rightarrow> string \<Rightarrow> Handle \<Rightarrow> error + TP" where
  "api_set tp key handle =
     (case api tp of
        None \<Rightarrow> Inl NilMapAssignment
      | Some table \<Rightarrow> Inr (tp\<lparr>api := Some (table(key \<mapsto> handle))\<rparr>))"

definition reserveAPI :: "TP \<Rightarrow> error + TP" where
  "reserveAPI tp =
     (case api_set tp IDENTITY identity_Process of
        Inl e \<Rightarrow> Inl e
      | Inr tp \<Rightarrow> api_set tp HEARTBEAT heartbeat_Process)"

subsection \<open>The facade\<close>

text \<open>
  The goroutines that \<open>Server\<close> and \<open>Client\<close> start (\<open>apiHandle\<close>, \<open>server\<close>,
  \<open>client\<close>) run later; the functions below are what the calls themselves do to the node.
  A duration is a count of nanoseconds.  \<open>Server\<close> and \<open>Client\<close> end in the panic of
  \<open>reserveAPI\<close> when the handler table is the nil map.
\<close>

definition SetAPI :: "TP \<Rightarrow> API \<Rightarrow> TP" where
  "SetAPI tp a = tp\<lparr>api := a\<rparr>"

definition Server :: "TP \<Rightarrow> string \<Rightarrow> error + TP" where
  "Server tp p =
     (case reserveAPI tp of
        Inl e \<Rightarrow> Inl e
      | Inr tp \<Rightarrow>
          (let tp = tp\<lparr>mode := SERVER\<rparr>;
               tp = tp\<lparr>port := p\<rparr>;
               tp = tp\<lparr>uid := ''Server''\<rparr>
           in Inr (if timeout tp = 0 then tp\<lparr>timeout := 5000000000\<rparr> else tp)))"

definition Client :: "TP \<Rightarrow> string \<Rightarrow> string \<Rightarrow> bool list \<Rightarrow> error + TP" where
  "Client tp addr p isShort =
     (let tp = (if length isShort > 0 \<and> isShort ! 0 then tp\<lparr>canClose := True\<rparr>
                else if timeout tp = 0 then tp\<lparr>timeout := 3000000000\<rparr>
                else tp)
      in case reserveAPI tp of
           Inl e \<Rightarrow> Inl e
         | Inr tp \<Rightarrow>
             (let tp = tp\<lparr>mode := CLIENT\<rparr>;
                  tp = tp\<lparr>port := p\<rparr>
              in Inr (tp\<lparr>serverAddr := addr\<rparr>)))"

definition SetUID :: "TP \<Rightarrow> string \<Rightarrow> TP" where
  "SetUID tp nodeuid = (if mode tp = SERVER then tp else tp\<lparr>uid := nodeuid\<rparr>)"

definition SetTimeout :: "TP \<Rightarrow> int \<Rightarrow> TP" where
  "SetTimeout tp long = tp\<lparr>timeout := long\<rparr>"

definition GetMode :: "TP \<Rightarrow> int" where
  "GetMode tp = mode tp"

subsection \<open>Pool access and closing\<close>

definition getConn :: "world \<Rightarrow> string \<Rightarrow> conn_ref option" where
  "getConn w nodeuid = connPool (self w) nodeuid"

definition closeConn :: "world \<Rightarrow> string \<Rightarrow> world" where
  "closeConn w nodeuid =
     (case connPool (self w) nodeuid of
        None \<Rightarrow> w
      | Some conn \<Rightarrow>
          (let w = w\<lparr>conns := (conns w)(conn := conn_Close (conns w conn))\<rparr>
           in w\<lparr>self := (self w)\<lparr>connPool := (connPool (self w))(nodeuid := None)\<rparr>\<rparr>))"

text \<open>
  \<open>Close\<close> can panic: \<open>self.connPool[uid].Close()\<close> calls \<open>Close\<close> on the nil
  pointer when \<open>uid\<close> has no entry.  The panic is the error value
  \<open>NilPointerDereference\<close>; the loop over the listed UIDs stops there.
\<close>

fun Close_listed :: "world \<Rightarrow> string list \<Rightarrow> error + world" where
  "Close_listed w [] = Inr w"
| "Close_listed w (u # nodeuid) =
     (case connPool (self w) u of
        None \<Rightarrow> Inl NilPointerDereference
      | Some conn \<Rightarrow>
          (let w = w\<lparr>conns := (conns w)(conn := conn_Close (conns w conn))\<rparr>;
               w = w\<lparr>self := (self w)\<lparr>connPool := (connPool (self w))(u := None)\<rparr>\<rparr>
           in Close_listed w nodeuid))"

text \<open>
  With no argument \<open>Close\<close> ranges over the whole pool, closing and deleting every entry:
  every connection the pool refers to is closed and the pool is empty afterwards,
  whatever the order of the iteration.
\<close>

definition Close_all :: "world \<Rightarrow> world" where
  "Close_all w =
     w\<lparr>conns := (\<lambda>r. if r \<in> ran (connPool (self w)) then conn_Close (conns w r) else conns w r),
       self := (self w)\<lparr>connPool := Map.empty\<rparr>\<rparr>"

definition Close :: "world \<Rightarrow> string list \<Rightarrow> error + world" where
  "Close w nodeuid =
     (let w = (case listener (self w) of
                 None \<Rightarrow> w
               | Some l \<Rightarrow> w\<lparr>self := (self w)\<lparr>listener := Some (Listener False)\<rparr>\<rparr>);
          w = w\<lparr>self := (self w)\<lparr>canClose := True\<rparr>\<rparr>
      in if length nodeuid = 0 then Inr (Close_all w) else Close_listed w nodeuid)"

subsection \<open>The receive path\<close>

text \<open>
  \<open>decode_NetData\<close> is the block that \<open>save\<close> and \<open>ProtoNetData2\<close> share, statement by
  statement: a fresh message, the test of its \<open>From\<close>, then the six assignments from the
  decoded record.  \<open>intSize\<close> is the width of \<open>int\<close> on the platform.
\<close>

definition decode_NetData :: "nat \<Rightarrow> Connect \<Rightarrow> NetDataProto \<Rightarrow> NetData" where
  "decode_NetData intSize conn protoNetData =
     (let d = new_NetData;
          d = (if From d = [] then d\<lparr>From := Connect.UID conn\<rparr> else d);
          d = d\<lparr>Body := BodyBytes (GetBody protoNetData)\<rparr>;
          d = d\<lparr>Operation := GetOperation protoNetData\<rparr>;
          d = d\<lparr>NetData.UID := GetUID protoNetData\<rparr>;
          d = d\<lparr>From := GetFrom protoNetData\<rparr>;
          d = d\<lparr>To := GetTo protoNetData\<rparr>;
          d = d\<lparr>Status := int_of_int64 intSize (GetStatus protoNetData)\<rparr>
      in d)"

text \<open>
  \<open>proto.Unmarshal\<close> and the frame codec's \<open>Unpack\<close> are outside the source file; they
  are parameters: \<open>unmarshal\<close> yields \<open>None\<close> when decoding fails, \<open>unpack\<close> yields
  the complete payloads and the residual bytes.
\<close>

definition ProtoNetData2 ::
  "nat \<Rightarrow> (bytes \<Rightarrow> NetDataProto option) \<Rightarrow> bytes \<Rightarrow> Connect \<Rightarrow> NetData \<times> error option" where
  "ProtoNetData2 intSize unmarshal data conn =
     (case unmarshal data of
        None \<Rightarrow> (new_NetData, Some UnmarshalError)
      | Some protoNetData \<Rightarrow> (decode_NetData intSize conn protoNetData, None))"

fun save_payloads ::
  "nat \<Rightarrow> (bytes \<Rightarrow> NetDataProto option) \<Rightarrow> Connect \<Rightarrow> NetData list \<Rightarrow> bytes list
     \<Rightarrow> NetData list" where
  "save_payloads intSize unmarshal conn chan [] = chan"
| "save_payloads intSize unmarshal conn chan (data # dataSlice) =
     (case unmarshal data of
        Some protoNetData \<Rightarrow>
          save_payloads intSize unmarshal conn
            (chan @ [decode_NetData intSize conn protoNetData]) dataSlice
      | None \<Rightarrow> save_payloads intSize unmarshal conn chan dataSlice)"

definition save ::
  "nat \<Rightarrow> (bytes \<Rightarrow> bytes list \<times> bytes) \<Rightarrow> (bytes \<Rightarrow> NetDataProto option) \<Rightarrow> world
     \<Rightarrow> conn_ref \<Rightarrow> world" where
  "save intSize unpack unmarshal w conn =
     (let (dataSlice, rest) = unpack (TmpBuffer (conns w conn));
          w = w\<lparr>conns := (conns w)(conn := (conns w conn)\<lparr>TmpBuffer := rest\<rparr>)\<rparr>
      in w\<lparr>self := (self w)\<lparr>apiReadChan :=
             save_payloads intSize unmarshal (conns w conn) (apiReadChan (self w)) dataSlice\<rparr>\<rparr>)"

subsection \<open>The dispatcher\<close>

text \<open>
  A send on a connection's \<open>WriteChan\<close> appends the message to the queue of the object the
  pointer denotes.  The capacity of the channel is not part of the model: a send that has
  to wait for room is the send once it has completed.
\<close>

definition WriteChan_send :: "world \<Rightarrow> conn_ref \<Rightarrow> NetData \<Rightarrow> world" where
  "WriteChan_send w conn m =
     w\<lparr>conns := (conns w)(conn := (conns w conn)\<lparr>WriteChan := WriteChan (conns w conn) @ [m]\<rparr>)\<rparr>"

definition autoErrorHandle :: "world \<Rightarrow> NetData \<Rightarrow> int \<Rightarrow> string \<Rightarrow> string \<Rightarrow> bool \<times> world" where
  "autoErrorHandle w data status msg reqFrom =
     (case getConn w reqFrom of
        None \<Rightarrow> (False, w)
      | Some oldConn \<Rightarrow>
          (let respErr = ReturnError data status msg [];
               respErr = respErr\<lparr>From := uid (self w)\<rparr>;
               respErr = respErr\<lparr>To := reqFrom\<rparr>
           in (True, WriteChan_send w oldConn respErr)))"

text \<open>
  The two pieces of the body of the ILLEGAL reply, as the bytes of the source's UTF-8
  string literals.
\<close>

definition illegal_msg_prefix :: string where
  "illegal_msg_prefix =
     [CHR 0xE6, CHR 0x82, CHR 0xA8, CHR 0xE8, CHR 0xAF, CHR 0xB7, CHR 0xE6, CHR 0xB1,
      CHR 0x82, CHR 0xE7, CHR 0x9A, CHR 0x84, CHR 0x41, CHR 0x50, CHR 0x49, CHR 0xE6,
      CHR 0x96, CHR 0xB9, CHR 0xE6, CHR 0xB3, CHR 0x95, CHR 0xEF, CHR 0xBC, CHR 0x88]"

definition illegal_msg_suffix :: string where
  "illegal_msg_suffix =
     [CHR 0xEF, CHR 0xBC, CHR 0x89, CHR 0xE4, CHR 0xB8, CHR 0x8D, CHR 0xE5, CHR 0xAD,
      CHR 0x98, CHR 0xE5, CHR 0x9C, CHR 0xA8, CHR 0xEF, CHR 0xBC, CHR 0x81]"

text \<open>
  \<open>apiHandle_req\<close> is the body of the goroutine that \<open>apiHandle\<close> starts for one request.
  \<open>operation\<close>, \<open>from\<close> and \<open>to\<close> are read before the handler runs.  When the handler
  returns the request itself, \<open>resp\<close> and \<open>req\<close> are one object, so the default written
  to \<open>resp.To\<close> is also in the message that \<open>autoErrorHandle\<close> turns into the error reply.
\<close>

definition apiHandle_req :: "world \<Rightarrow> NetData \<Rightarrow> world" where
  "apiHandle_req w req =
     (let operation = Operation req; from = To req; to = From req
      in case api_get (self w) operation of
           None \<Rightarrow>
             snd (autoErrorHandle w req LLLEGAL
                    (illegal_msg_prefix @ Operation req @ illegal_msg_suffix) to)
         | Some handle \<Rightarrow>
             (case handle req of
                (req, NoReply) \<Rightarrow>
                  (case getConn w to of
                     None \<Rightarrow> w
                   | Some conn \<Rightarrow> if IsShort (conns w conn) then closeConn w to else w)
              | (req, r) \<Rightarrow>
                  (let resp = (case r of Fresh d \<Rightarrow> d | _ \<Rightarrow> req);
                       resp = (if To resp = [] then resp\<lparr>To := to\<rparr> else resp);
                       req = (case r of Fresh d \<Rightarrow> req | _ \<Rightarrow> resp)
                   in case getConn w (To resp) of
                        None \<Rightarrow> snd (autoErrorHandle w req FAILURE [] to)
                      | Some conn \<Rightarrow>
                          (let resp = (if Operation resp = [] then resp\<lparr>Operation := operation\<rparr>
                                       else resp);
                               resp = (if From resp = [] then resp\<lparr>From := from\<rparr> else resp)
                           in WriteChan_send w conn resp))))"

text \<open>
  One turn of the loop of \<open>apiHandle\<close>: take the oldest message of the inbound queue and
  handle it; on an empty queue the receive blocks (\<open>None\<close>).
\<close>

definition apiHandle_step :: "world \<Rightarrow> world option" where
  "apiHandle_step w =
     (case apiReadChan (self w) of
        [] \<Rightarrow> None
      | req # rest \<Rightarrow> Some (apiHandle_req (w\<lparr>self := (self w)\<lparr>apiReadChan := rest\<rparr>\<rparr>) req))"

section \<open>Example nodes\<close>

text \<open>
  A server node with two user handlers and two pooled connections, the second one
  short-lived.  \<open>echo_Process\<close> answers with a new message carrying the request's body
  and nothing else; \<open>relay_Process\<close> addresses its answer to the UID \<open>ghost\<close>, which no
  connection has.
\<close>

definition echo_Process :: Handle where
  "echo_Process receive = (receive, Fresh (ReturnData (Body receive) []))"

definition relay_Process :: Handle where
  "relay_Process receive = (receive, Fresh (ReturnData (Body receive) [[], ''ghost'']))"

definition example_conn :: Connect where
  "example_conn =
     \<lparr>UID = ''client1'', IsShort = False, WriteChan = [], TmpBuffer = ''frame'', closed = False\<rparr>"

definition example_short_conn :: Connect where
  "example_short_conn =
     \<lparr>UID = ''client2'', IsShort = True,
      WriteChan = [NewNetData ''Server'' ''client2'' ''push'' (BodyBytes ''x'')],
      TmpBuffer = [], closed = False\<rparr>"

definition example_api :: "string \<rightharpoonup> Handle" where
  "example_api = [''echo'' \<mapsto> echo_Process, ''relay'' \<mapsto> relay_Process]"

definition example_node :: TP where
  "example_node =
     (projr (Server (SetAPI New (Some example_api)) '':9988''))
       \<lparr>listener := Some (Listener True),
        connPool := [''client1'' \<mapsto> 0, ''client2'' \<mapsto> 1]\<rparr>"

definition example_world :: world where
  "example_world =
     \<lparr>self = example_node, conns = (\<lambda>r. example_conn)(1 := example_short_conn)\<rparr>"

text \<open>A decoded payload whose \<open>From\<close> is absent, with a codec that yields it.\<close>

definition example_proto :: NetDataProto where
  "example_proto =
     \<lparr>pBody = ''hi'', pOperation = Some ''echo'', pUID = None, pFrom = None,
      pTo = Some ''Server'', pStatus = Some 0\<rparr>"

text \<open>
  A handler table that binds the two reserved names itself, both to \<open>echo_Process\<close>.
\<close>

definition usurping_api :: "string \<rightharpoonup> Handle" where
  "usurping_api = [''+identity+'' \<mapsto> echo_Process, ''+heartbeat+'' \<mapsto> echo_Process]"

definition example_unmarshal :: "bytes \<Rightarrow> NetDataProto option" where
  "example_unmarshal data = (if data = ''frame'' then Some example_proto else None)"

definition example_unpack :: "bytes \<Rightarrow> bytes list \<times> bytes" where
  "example_unpack buf = ([buf], [])"

text \<open>The message that a non-nil reply denotes, given the request as the handler left it.\<close>

definition reply_msg :: "NetData \<Rightarrow> reply \<Rightarrow> NetData" where
  "reply_msg req r = (case r of Fresh d \<Rightarrow> d | _ \<Rightarrow> req)"

text \<open>Requests to the example node.\<close>

definition req_nope :: NetData where
  "req_nope = NewNetData ''client1'' ''Server'' ''nope'' (BodyBytes [])"

definition req_nope_stranger :: NetData where
  "req_nope_stranger = NewNetData ''stranger'' ''Server'' ''nope'' (BodyBytes [])"

definition req_relay :: NetData where
  "req_relay = NewNetData ''client1'' ''Server'' ''relay'' (BodyBytes ''x'')"

definition req_relay_stranger :: NetData where
  "req_relay_stranger = NewNetData ''stranger'' ''Server'' ''relay'' (BodyBytes ''x'')"

definition req_echo_elsewhere :: NetData where
  "req_echo_elsewhere = NewNetData ''client1'' ''elsewhere'' ''echo'' (BodyBytes ''hi'')"

definition req_beat_short :: NetData where
  "req_beat_short = NewNetData ''client2'' ''Server'' ''+heartbeat+'' NoBody"

definition req_beat_long :: NetData where
  "req_beat_long = NewNetData ''client1'' ''Server'' ''+heartbeat+'' NoBody"

definition req_beat_stranger :: NetData where
  "req_beat_stranger = NewNetData ''stranger'' ''Server'' ''+heartbeat+'' NoBody"

section \<open>Properties of the facade\<close>

lemma reserveAPI_nil: "api tp = None \<Longrightarrow> reserveAPI tp = Inl NilMapAssignment"
  by (simp add: reserveAPI_def api_set_def)

lemma reserveAPI_table:
  "api tp = Some table \<Longrightarrow>
   reserveAPI tp =
     Inr (tp\<lparr>api := Some (table(IDENTITY \<mapsto> identity_Process, HEARTBEAT \<mapsto> heartbeat_Process))\<rparr>)"
  by (simp add: reserveAPI_def api_set_def)

lemma Server_table:
  assumes "api tp = Some table"
  shows "\<exists>s. Server tp p = Inr s \<and> uid s = ''Server'' \<and> mode s = SERVER
           \<and> timeout s = (if timeout tp = 0 then 5000000000 else timeout tp)
           \<and> api s = Some (table(IDENTITY \<mapsto> identity_Process, HEARTBEAT \<mapsto> heartbeat_Process))"
  by (simp add: Server_def reserveAPI_table [OF assms] Let_def)

lemma Client_table:
  assumes "api tp = Some table"
  shows "\<exists>s. Client tp addr p isShort = Inr s
           \<and> timeout s = (if length isShort > 0 \<and> isShort ! 0 then timeout tp
                           else if timeout tp = 0 then 3000000000 else timeout tp)
           \<and> api s = Some (table(IDENTITY \<mapsto> identity_Process, HEARTBEAT \<mapsto> heartbeat_Process))"
proof -
  let ?tp = "if length isShort > 0 \<and> isShort ! 0 then tp\<lparr>canClose := True\<rparr>
             else if timeout tp = 0 then tp\<lparr>timeout := 3000000000\<rparr> else tp"
  have "api ?tp = Some table"
    using assms by simp
  then show ?thesis
    by (simp add: Client_def reserveAPI_table Let_def)
qed

lemma SetUID_server_mode: "mode tp = SERVER \<Longrightarrow> SetUID tp u = tp"
  by (simp add: SetUID_def)

lemma foldl_SetUID_server_mode: "mode tp = SERVER \<Longrightarrow> foldl SetUID tp us = tp"
  by (induction us) (simp_all add: SetUID_server_mode)

lemma api_SetUID: "api (SetUID tp u) = api tp"
  by (simp add: SetUID_def)

lemma Server_uid:
  assumes "api tp \<noteq> None"
  shows "\<exists>s. Server tp p = Inr s \<and> uid s = ''Server'' \<and> uid (SetUID s u) = ''Server''
           \<and> uid (foldl SetUID s us) = ''Server''"
proof -
  obtain table where "api tp = Some table"
    using assms by auto
  then obtain s where s: "Server tp p = Inr s" "uid s = ''Server''" "mode s = SERVER"
    using Server_table by blast
  then show ?thesis
    by (simp add: SetUID_server_mode foldl_SetUID_server_mode)
qed

text \<open>
  Claim C6.  On a node whose handler table is allocated, \<open>Server\<close> returns with the
  node's UID equal to the string \<open>Server\<close>, whatever UID was set before (\<open>u0\<close>), and the
  UID stays so after one call and after any sequence of calls of \<open>SetUID\<close> that follow.
\<close>

theorem Server_uid_fixed:
  assumes "api tp \<noteq> None"
  shows "(\<exists>s. Server (SetUID tp u0) p = Inr s \<and> uid s = ''Server''
             \<and> uid (SetUID s u) = ''Server'' \<and> uid (foldl SetUID s us) = ''Server'') \<and>
         (\<exists>s. Server tp p = Inr s \<and> uid s = ''Server''
             \<and> uid (SetUID s u) = ''Server'' \<and> uid (foldl SetUID s us) = ''Server'')"
proof
  have "api (SetUID tp u0) \<noteq> None"
    using assms by (simp add: api_SetUID)
  then show "\<exists>s. Server (SetUID tp u0) p = Inr s \<and> uid s = ''Server''
               \<and> uid (SetUID s u) = ''Server'' \<and> uid (foldl SetUID s us) = ''Server''"
    by (rule Server_uid)
  show "\<exists>s. Server tp p = Inr s \<and> uid s = ''Server''
          \<and> uid (SetUID s u) = ''Server'' \<and> uid (foldl SetUID s us) = ''Server''"
    using assms by (rule Server_uid)
qed

theorem Server_uid_fixed_witness:
  "api New \<noteq> None \<and>
   (\<exists>s. Server (SetUID New ''node7'') '':9988'' = Inr s \<and> uid s = ''Server''
       \<and> uid (SetUID s ''node8'') = ''Server''
       \<and> uid (foldl SetUID s [''node8'', ''node9'']) = ''Server'') \<and>
   (\<exists>s. Server New '':9988'' = Inr s \<and> uid s = ''Server''
       \<and> uid (SetUID s ''node8'') = ''Server''
       \<and> uid (foldl SetUID s [''node8'', ''node9'']) = ''Server'')"
proof -
  have a: "api New \<noteq> None"
    by (simp add: New_def)
  show ?thesis
    using a Server_uid_fixed [OF a, of "''node7''" "'':9988''" "''node8''" "[''node8'', ''node9'']"]
    by blast
qed

text \<open>
  Claim C7 as stated fails at the nil table: \<open>SetAPI\<close> accepts it, and the role start
  panics in \<open>reserveAPI\<close> on the first assignment, so that no handler is installed.
\<close>

theorem nil_table_counterexample:
  "Server (SetAPI New None) '':9988'' = Inl NilMapAssignment \<and>
   Client (SetAPI New None) ''127.0.0.1'' '':9988'' [] = Inl NilMapAssignment"
  by (simp add: Server_def Client_def SetAPI_def reserveAPI_nil New_def Let_def)

text \<open>
  Claim C7, amended.  For every allocated (non-nil) handler table \<open>a\<close> installed with
  \<open>SetAPI\<close> before, tables that bind the two reserved names included, \<open>Server\<close> and
  \<open>Client\<close> return with the name \<open>+identity+\<close> bound to the handler that swaps \<open>From\<close>
  and \<open>To\<close> of the message it received and returns that same message, and with
  \<open>+heartbeat+\<close> bound to the handler that returns no reply.
\<close>

theorem reserved_handlers_installed:
  "(\<exists>s. Server (SetAPI tp (Some a)) p = Inr s
       \<and> api_get s ''+identity+'' = Some identity_Process
       \<and> api_get s ''+heartbeat+'' = Some heartbeat_Process) \<and>
   (\<exists>s. Client (SetAPI tp (Some a)) addr p isShort = Inr s
       \<and> api_get s ''+identity+'' = Some identity_Process
       \<and> api_get s ''+heartbeat+'' = Some heartbeat_Process) \<and>
   identity_Process m = (m\<lparr>From := To m, To := From m\<rparr>, SameMsg) \<and>
   heartbeat_Process m = (m, NoReply)"
proof -
  have a: "api (SetAPI tp (Some a)) = Some a"
    by (simp add: SetAPI_def)
  have t: "api s = Some (a(IDENTITY \<mapsto> identity_Process, HEARTBEAT \<mapsto> heartbeat_Process)) \<Longrightarrow>
           api_get s ''+identity+'' = Some identity_Process \<and>
           api_get s ''+heartbeat+'' = Some heartbeat_Process" for s
    by (simp add: api_get_def IDENTITY_def HEARTBEAT_def)
  have "\<exists>s. Server (SetAPI tp (Some a)) p = Inr s
          \<and> api_get s ''+identity+'' = Some identity_Process
          \<and> api_get s ''+heartbeat+'' = Some heartbeat_Process"
    using Server_table [OF a, of p] t by blast
  moreover have "\<exists>s. Client (SetAPI tp (Some a)) addr p isShort = Inr s
          \<and> api_get s ''+identity+'' = Some identity_Process
          \<and> api_get s ''+heartbeat+'' = Some heartbeat_Process"
    using Client_table [OF a, of addr p isShort] t by blast
  ultimately show ?thesis
    by (simp add: identity_Process_def heartbeat_Process_def)
qed

theorem reserved_handlers_installed_witness:
  "usurping_api ''+identity+'' = Some echo_Process \<and>
   usurping_api ''+heartbeat+'' = Some echo_Process \<and>
   (\<exists>s. Server (SetAPI New (Some usurping_api)) '':9988'' = Inr s
       \<and> api_get s ''+identity+'' = Some identity_Process
       \<and> api_get s ''+heartbeat+'' = Some heartbeat_Process) \<and>
   (\<exists>s. Client (SetAPI New (Some usurping_api)) ''127.0.0.1'' '':9988'' [True] = Inr s
       \<and> api_get s ''+identity+'' = Some identity_Process
       \<and> api_get s ''+heartbeat+'' = Some heartbeat_Process)"
proof -
  have u: "usurping_api ''+identity+'' = Some echo_Process"
          "usurping_api ''+heartbeat+'' = Some echo_Process"
    by (simp_all add: usurping_api_def)
  show ?thesis
    using u reserved_handlers_installed
      [of New usurping_api "'':9988''" "''127.0.0.1''" "[True]"]
    by blast
qed

text \<open>
  Claim C8 as stated fails: a client started in short mode with the timeout unset keeps
  the timeout at zero.
\<close>

theorem Client_short_timeout_counterexample:
  "\<not> (timeout New = 0 \<longrightarrow>
        map_sum id timeout (Client New ''127.0.0.1'' '':9988'' [True]) = Inr 3000000000)"
  by (simp add: Client_def reserveAPI_def api_set_def New_def Let_def)

text \<open>
  Claim C8, amended.  On a node whose handler table is allocated and whose timeout is
  unset, \<open>Server\<close> sets the timeout to 5 seconds and \<open>Client\<close> sets it to 3 seconds when
  it is not started in short mode (no flag, or a first flag that is false); started in
  short mode \<open>Client\<close> leaves it at zero.  A non-zero timeout is preserved by both, in
  every mode.
\<close>

theorem default_timeout:
  assumes "api tp \<noteq> None"
  shows "(timeout tp = 0 \<longrightarrow>
            map_sum id timeout (Server tp p) = Inr 5000000000 \<and>
            map_sum id timeout (Client tp addr p []) = Inr 3000000000 \<and>
            map_sum id timeout (Client tp addr p (False # flags)) = Inr 3000000000 \<and>
            map_sum id timeout (Client tp addr p (True # flags)) = Inr 0) \<and>
         (timeout tp \<noteq> 0 \<longrightarrow>
            map_sum id timeout (Server tp p) = Inr (timeout tp) \<and>
            map_sum id timeout (Client tp addr p isShort) = Inr (timeout tp))"
proof -
  obtain table where t: "api tp = Some table"
    using assms by auto
  have S: "map_sum id timeout (Server tp p) =
             Inr (if timeout tp = 0 then 5000000000 else timeout tp)"
    using Server_table [OF t, of p] by auto
  have C: "map_sum id timeout (Client tp addr p bs) =
             Inr (if length bs > 0 \<and> bs ! 0 then timeout tp
                  else if timeout tp = 0 then 3000000000 else timeout tp)" for bs
    using Client_table [OF t, of addr p bs] by auto
  show ?thesis
    by (simp add: S C)
qed

theorem default_timeout_witness:
  "api New \<noteq> None \<and> timeout New = 0 \<and>
   map_sum id timeout (Server New '':9988'') = Inr 5000000000 \<and>
   map_sum id timeout (Client New ''127.0.0.1'' '':9988'' []) = Inr 3000000000 \<and>
   map_sum id timeout (Client New ''127.0.0.1'' '':9988'' [False]) = Inr 3000000000 \<and>
   map_sum id timeout (Client New ''127.0.0.1'' '':9988'' [True]) = Inr 0 \<and>
   api (SetTimeout New 7000000000) \<noteq> None \<and>
   timeout (SetTimeout New 7000000000) \<noteq> 0 \<and>
   map_sum id timeout (Server (SetTimeout New 7000000000) '':9988'') = Inr 7000000000 \<and>
   map_sum id timeout (Client (SetTimeout New 7000000000) ''127.0.0.1'' '':9988'' [True])
     = Inr 7000000000"
proof -
  have a: "api New \<noteq> None"
    by (simp add: New_def)
  have a7: "api (SetTimeout New 7000000000) \<noteq> None"
    by (simp add: New_def SetTimeout_def)
  have unset: "timeout New = 0"
    by (simp add: New_def)
  have set7: "timeout (SetTimeout New 7000000000) = 7000000000"
    by (simp add: SetTimeout_def)
  show ?thesis
    using a a7 unset set7
      default_timeout [OF a, of "'':9988''" "''127.0.0.1''" "[]"]
      default_timeout [OF a7, of "'':9988''" "''127.0.0.1''" _ "[True]"]
    by simp
qed

section \<open>Properties of the dispatcher\<close>

lemma illegal_msg_nonempty: "illegal_msg_prefix @ operation @ illegal_msg_suffix \<noteq> []"
  by (simp add: illegal_msg_prefix_def)

lemma autoErrorHandle_present:
  "connPool (self w) reqFrom = Some c \<Longrightarrow>
   snd (autoErrorHandle w data status msg reqFrom) =
     w\<lparr>conns := (conns w)(c := (conns w c)\<lparr>WriteChan := WriteChan (conns w c) @
        [data\<lparr>Status := status, Body := BodyString msg, From := uid (self w), To := reqFrom\<rparr>]\<rparr>)\<rparr>"
  by (simp add: autoErrorHandle_def getConn_def ReturnError_def WriteChan_send_def Let_def)

lemma autoErrorHandle_absent:
  "connPool (self w) reqFrom = None \<Longrightarrow> snd (autoErrorHandle w data status msg reqFrom) = w"
  by (simp add: autoErrorHandle_def getConn_def)

lemma apiHandle_req_reply:
  assumes "api_get (self w) (Operation req) = Some handle"
      and "handle req = (req', r)" and "r \<noteq> NoReply"
  shows "apiHandle_req w req =
     (let resp = reply_msg req' r;
          resp = (if To resp = [] then resp\<lparr>To := From req\<rparr> else resp);
          req'' = (case r of Fresh d \<Rightarrow> req' | _ \<Rightarrow> resp)
      in case connPool (self w) (To resp) of
           None \<Rightarrow> snd (autoErrorHandle w req'' FAILURE [] (From req))
         | Some conn \<Rightarrow>
             WriteChan_send w conn
               (resp\<lparr>Operation := (if Operation resp = [] then Operation req else Operation resp),
                     From := (if From resp = [] then To req else From resp)\<rparr>))"
  using assms
  by (cases r)
     (auto simp add: apiHandle_req_def reply_msg_def Let_def getConn_def split: option.splits)

lemma apiHandle_req_noreply:
  assumes "api_get (self w) (Operation req) = Some handle"
      and "handle req = (req', NoReply)"
  shows "apiHandle_req w req =
     (case connPool (self w) (From req) of
        None \<Rightarrow> w
      | Some conn \<Rightarrow> if IsShort (conns w conn) then closeConn w (From req) else w)"
  using assms by (simp add: apiHandle_req_def Let_def getConn_def)

text \<open>Facts about the example node, for evaluating the dispatcher on it.\<close>

lemma Server_example:
  "Server (SetAPI New (Some example_api)) '':9988'' =
     Inr (New\<lparr>api := Some (example_api(IDENTITY \<mapsto> identity_Process,
                                           HEARTBEAT \<mapsto> heartbeat_Process)),
               mode := SERVER, port := '':9988'', uid := ''Server'',
               timeout := 5000000000\<rparr>)"
  by (simp add: Server_def SetAPI_def reserveAPI_def api_set_def New_def Let_def)

lemma example_node_eq:
  "example_node =
     New\<lparr>api := Some (example_api(IDENTITY \<mapsto> identity_Process,
                                      HEARTBEAT \<mapsto> heartbeat_Process)),
          mode := SERVER, port := '':9988'', uid := ''Server'',
          timeout := 5000000000, listener := Some (Listener True),
          connPool := [''client1'' \<mapsto> 0, ''client2'' \<mapsto> 1]\<rparr>"
  unfolding example_node_def Server_example by simp

lemma api_get_example_node:
  "api_get example_node =
     [''echo'' \<mapsto> echo_Process, ''relay'' \<mapsto> relay_Process,
      ''+identity+'' \<mapsto> identity_Process, ''+heartbeat+'' \<mapsto> heartbeat_Process]"
  unfolding example_node_eq
  by (rule ext) (simp add: api_get_def example_api_def IDENTITY_def HEARTBEAT_def)

lemma connPool_example_node: "connPool example_node = [''client1'' \<mapsto> 0, ''client2'' \<mapsto> 1]"
  unfolding example_node_eq by simp

lemma uid_example_node: "uid example_node = ''Server''"
  unfolding example_node_eq by simp

lemma canClose_example_node: "canClose example_node = False"
  unfolding example_node_eq by (simp add: New_def)

lemma apiReadChan_example_node: "apiReadChan example_node = []"
  unfolding example_node_eq by (simp add: New_def)

lemmas example_simps =
  api_get_example_node connPool_example_node uid_example_node example_world_def
  example_conn_def example_short_conn_def NewNetData_def ReturnData_def new_NetData_def
  echo_Process_def relay_Process_def heartbeat_Process_def reply_msg_def SUCCESS_def

text \<open>
  Claim C3.  A message whose operation has no handler: when its \<open>From\<close> is the key of a
  pooled connection \<open>c\<close>, the node after the dispatch is the node before with exactly one
  message \<open>m\<close> appended to the queue of \<open>c\<close>, where \<open>m\<close> has status \<open>-2\<close>, \<open>To\<close> the
  original \<open>From\<close>, \<open>From\<close> the node's UID and a non-empty body; when \<open>From\<close> is not in
  the pool the node is unchanged, so nothing is enqueued anywhere.
\<close>

theorem unknown_operation_reply:
  assumes "api_get (self w) (Operation req) = None"
  shows "(connPool (self w) (From req) = Some c \<longrightarrow>
            (\<exists>m s. apiHandle_req w req =
                 w\<lparr>conns := (conns w)(c := (conns w c)\<lparr>WriteChan := WriteChan (conns w c) @ [m]\<rparr>)\<rparr>
               \<and> Status m = - 2 \<and> To m = From req \<and> From m = uid (self w)
               \<and> Body m = BodyString s \<and> s \<noteq> []))
       \<and> (connPool (self w) (From req) = None \<longrightarrow> apiHandle_req w req = w)"
proof (intro conjI impI)
  assume c: "connPool (self w) (From req) = Some c"
  let ?msg = "illegal_msg_prefix @ Operation req @ illegal_msg_suffix"
  let ?m = "req\<lparr>Status := LLLEGAL, Body := BodyString ?msg, From := uid (self w), To := From req\<rparr>"
  have "apiHandle_req w req =
          w\<lparr>conns := (conns w)(c := (conns w c)\<lparr>WriteChan := WriteChan (conns w c) @ [?m]\<rparr>)\<rparr>"
    using assms c by (simp add: apiHandle_req_def Let_def autoErrorHandle_present)
  moreover have "Status ?m = - 2"
    by (simp add: LLLEGAL_def)
  moreover have "To ?m = From req" "From ?m = uid (self w)" "Body ?m = BodyString ?msg"
    by simp_all
  ultimately show "\<exists>m s. apiHandle_req w req =
                 w\<lparr>conns := (conns w)(c := (conns w c)\<lparr>WriteChan := WriteChan (conns w c) @ [m]\<rparr>)\<rparr>
               \<and> Status m = - 2 \<and> To m = From req \<and> From m = uid (self w)
               \<and> Body m = BodyString s \<and> s \<noteq> []"
    using illegal_msg_nonempty by blast
next
  assume "connPool (self w) (From req) = None"
  then show "apiHandle_req w req = w"
    using assms by (simp add: apiHandle_req_def Let_def autoErrorHandle_absent)
qed

theorem unknown_operation_reply_witness:
  "api_get (self example_world) (Operation req_nope) = None \<and>
   connPool (self example_world) (From req_nope) = Some 0 \<and>
   (\<exists>m s. apiHandle_req example_world req_nope =
        example_world\<lparr>conns := (conns example_world)
          (0 := (conns example_world 0)\<lparr>WriteChan := WriteChan (conns example_world 0) @ [m]\<rparr>)\<rparr>
      \<and> Status m = - 2 \<and> To m = From req_nope \<and> From m = uid (self example_world)
      \<and> Body m = BodyString s \<and> s \<noteq> []) \<and>
   api_get (self example_world) (Operation req_nope_stranger) = None \<and>
   connPool (self example_world) (From req_nope_stranger) = None \<and>
   apiHandle_req example_world req_nope_stranger = example_world"
proof -
  have a1: "api_get (self example_world) (Operation req_nope) = None"
    by (simp add: req_nope_def example_simps)
  have p1: "connPool (self example_world) (From req_nope) = Some 0"
    by (simp add: req_nope_def example_simps)
  have a2: "api_get (self example_world) (Operation req_nope_stranger) = None"
    by (simp add: req_nope_stranger_def example_simps)
  have p2: "connPool (self example_world) (From req_nope_stranger) = None"
    by (simp add: req_nope_stranger_def example_simps)
  show ?thesis
    using a1 p1 a2 p2
      unknown_operation_reply [OF a1, of 0] unknown_operation_reply [OF a2, of 0]
    by blast
qed

text \<open>
  Claim C4.  A handler returns a reply whose target, \<open>resp.To\<close> with the request's
  \<open>From\<close> standing in for an empty \<open>To\<close>, has no connection in the pool.  When the
  requester's connection \<open>c\<close> is in the pool, the node after the dispatch is the node
  before with exactly one message appended to the queue of \<open>c\<close>, of status \<open>-1\<close>,
  addressed to the requester and sent in the node's name; no other queue changes.  When
  the requester has no connection either, the node is unchanged.
\<close>

theorem unroutable_reply_failure:
  assumes "api_get (self w) (Operation req) = Some handle"
      and "handle req = (req', r)" and "r \<noteq> NoReply"
      and "connPool (self w)
             (if To (reply_msg req' r) = [] then From req else To (reply_msg req' r)) = None"
  shows "(connPool (self w) (From req) = Some c \<longrightarrow>
            (\<exists>m. apiHandle_req w req =
                 w\<lparr>conns := (conns w)(c := (conns w c)\<lparr>WriteChan := WriteChan (conns w c) @ [m]\<rparr>)\<rparr>
               \<and> Status m = - 1 \<and> To m = From req \<and> From m = uid (self w)))
       \<and> (connPool (self w) (From req) = None \<longrightarrow> apiHandle_req w req = w)"
  using assms(4)
  by (auto simp add: apiHandle_req_reply [OF assms(1-3)] Let_def autoErrorHandle_present
      autoErrorHandle_absent FAILURE_def split: if_splits)

theorem unroutable_reply_failure_witness:
  "api_get (self example_world) (Operation req_relay) = Some relay_Process \<and>
   relay_Process req_relay = (req_relay, Fresh (ReturnData (BodyBytes ''x'') [[], ''ghost''])) \<and>
   connPool (self example_world) ''ghost'' = None \<and>
   connPool (self example_world) (From req_relay) = Some 0 \<and>
   (\<exists>m. apiHandle_req example_world req_relay =
        example_world\<lparr>conns := (conns example_world)
          (0 := (conns example_world 0)\<lparr>WriteChan := WriteChan (conns example_world 0) @ [m]\<rparr>)\<rparr>
      \<and> Status m = - 1 \<and> To m = From req_relay \<and> From m = uid (self example_world)) \<and>
   connPool (self example_world) (From req_relay_stranger) = None \<and>
   apiHandle_req example_world req_relay_stranger = example_world"
proof -
  let ?r = "Fresh (ReturnData (BodyBytes ''x'') [[], ''ghost''])"
  have a1: "api_get (self example_world) (Operation req_relay) = Some relay_Process"
    by (simp add: req_relay_def example_simps)
  have h1: "relay_Process req_relay = (req_relay, ?r)"
    by (simp add: req_relay_def example_simps)
  have a2: "api_get (self example_world) (Operation req_relay_stranger) = Some relay_Process"
    by (simp add: req_relay_stranger_def example_simps)
  have h2: "relay_Process req_relay_stranger = (req_relay_stranger, ?r)"
    by (simp add: req_relay_stranger_def example_simps)
  have n: "?r \<noteq> NoReply"
    by simp
  have g: "connPool (self example_world) ''ghost'' = None"
    by (simp add: example_simps)
  have t1: "connPool (self example_world)
              (if To (reply_msg req_relay ?r) = [] then From req_relay
               else To (reply_msg req_relay ?r)) = None"
    by (simp add: example_simps)
  have t2: "connPool (self example_world)
              (if To (reply_msg req_relay_stranger ?r) = [] then From req_relay_stranger
               else To (reply_msg req_relay_stranger ?r)) = None"
    by (simp add: example_simps)
  have p1: "connPool (self example_world) (From req_relay) = Some 0"
    by (simp add: req_relay_def example_simps)
  have p2: "connPool (self example_world) (From req_relay_stranger) = None"
    by (simp add: req_relay_stranger_def example_simps)
  show ?thesis
    using a1 h1 g p1 p2
      unroutable_reply_failure [OF a1 h1 n t1, of 0]
      unroutable_reply_failure [OF a2 h2 n t2, of 0]
    by blast
qed

lemma conn_Close_twice: "conn_Close (conn_Close c) = conn_Close c"
  by (simp add: conn_Close_def)

text \<open>
  Claim C5.  A handler returns no reply.  When the request's \<open>From\<close> is the key of a
  pooled connection \<open>c\<close> that is short-lived, the dispatcher closes \<open>c\<close> (the
  connection object becomes what \<open>Close\<close> makes of it: shut, its queue drained) and
  deletes the key from the pool, and nothing else changes.  When the connection is not
  short-lived, or the key is absent, the node and every connection are unchanged: the
  pool is as before and no reply is sent.
\<close>

theorem no_reply_closes_short:
  assumes "api_get (self w) (Operation req) = Some handle"
      and "handle req = (req', NoReply)"
  shows "(connPool (self w) (From req) = Some c \<and> IsShort (conns w c) \<longrightarrow>
            apiHandle_req w req =
              w\<lparr>conns := (conns w)(c := conn_Close (conns w c)),
                self := (self w)\<lparr>connPool := (connPool (self w))(From req := None)\<rparr>\<rparr>
            \<and> closed (conns (apiHandle_req w req) c)
            \<and> connPool (self (apiHandle_req w req)) (From req) = None)
       \<and> (connPool (self w) (From req) = Some c \<and> \<not> IsShort (conns w c) \<longrightarrow>
            apiHandle_req w req = w)
       \<and> (connPool (self w) (From req) = None \<longrightarrow> apiHandle_req w req = w)"
  by (auto simp add: apiHandle_req_noreply [OF assms] closeConn_def conn_Close_def Let_def
      split: option.splits)

theorem no_reply_closes_short_witness:
  "api_get (self example_world) (Operation req_beat_short) = Some heartbeat_Process \<and>
   heartbeat_Process req_beat_short = (req_beat_short, NoReply) \<and>
   connPool (self example_world) (From req_beat_short) = Some 1 \<and>
   IsShort (conns example_world 1) \<and>
   WriteChan (conns example_world 1) \<noteq> [] \<and>
   apiHandle_req example_world req_beat_short =
     example_world\<lparr>conns := (conns example_world)(1 := conn_Close (conns example_world 1)),
       self := (self example_world)\<lparr>connPool :=
         (connPool (self example_world))(From req_beat_short := None)\<rparr>\<rparr> \<and>
   closed (conns (apiHandle_req example_world req_beat_short) 1) \<and>
   connPool (self (apiHandle_req example_world req_beat_short)) (From req_beat_short) = None \<and>
   connPool (self example_world) (From req_beat_long) = Some 0 \<and>
   \<not> IsShort (conns example_world 0) \<and>
   apiHandle_req example_world req_beat_long = example_world \<and>
   connPool (self example_world) (From req_beat_stranger) = None \<and>
   apiHandle_req example_world req_beat_stranger = example_world"
proof -
  have a1: "api_get (self example_world) (Operation req_beat_short) = Some heartbeat_Process"
    by (simp add: req_beat_short_def example_simps)
  have a2: "api_get (self example_world) (Operation req_beat_long) = Some heartbeat_Process"
    by (simp add: req_beat_long_def example_simps)
  have a3: "api_get (self example_world) (Operation req_beat_stranger) = Some heartbeat_Process"
    by (simp add: req_beat_stranger_def example_simps)
  have h: "heartbeat_Process m = (m, NoReply)" for m
    by (simp add: heartbeat_Process_def)
  have p1: "connPool (self example_world) (From req_beat_short) = Some 1"
    by (simp add: req_beat_short_def example_simps)
  have p2: "connPool (self example_world) (From req_beat_long) = Some 0"
    by (simp add: req_beat_long_def example_simps)
  have p3: "connPool (self example_world) (From req_beat_stranger) = None"
    by (simp add: req_beat_stranger_def example_simps)
  have s1: "IsShort (conns example_world 1)"
    by (simp add: example_simps)
  have q1: "WriteChan (conns example_world 1) \<noteq> []"
    by (simp add: example_simps)
  have s2: "\<not> IsShort (conns example_world 0)"
    by (simp add: example_simps)
  show ?thesis
    using a1 h p1 p2 p3 s1 q1 s2
      no_reply_closes_short [OF a1 h, of 1]
      no_reply_closes_short [OF a2 h, of 0]
      no_reply_closes_short [OF a3 h, of 0]
    by blast
qed

text \<open>
  Claim C2 at a request that arrives with \<open>To = elsewhere\<close> on the node \<open>Server\<close>, from
  the pooled peer \<open>client1\<close>.  The echo handler's reply leaves \<open>To\<close>, \<open>From\<close> and
  \<open>Operation\<close> empty.  The dispatcher fills \<open>To\<close> and \<open>Operation\<close> as the claim says,
  and fills \<open>From\<close> with the request's \<open>To\<close>: the reply that it puts on the queue of
  \<open>client1\<close> has \<open>From = elsewhere\<close>, not the node's UID.
\<close>

theorem reply_From_is_request_To:
  "api_get (self example_world) (Operation req_echo_elsewhere) = Some echo_Process \<and>
   echo_Process req_echo_elsewhere =
     (req_echo_elsewhere, Fresh (ReturnData (BodyBytes ''hi'') [])) \<and>
   From (ReturnData (BodyBytes ''hi'') []) = [] \<and>
   uid (self example_world) = ''Server'' \<and>
   WriteChan (conns (apiHandle_req example_world req_echo_elsewhere) 0) =
     [\<lparr>Body = BodyBytes ''hi'', Operation = ''echo'', UID = [], From = ''elsewhere'',
       To = ''client1'', Status = 0\<rparr>] \<and>
   From (last (WriteChan (conns (apiHandle_req example_world req_echo_elsewhere) 0)))
     \<noteq> uid (self example_world)"
proof -
  have a: "api_get (self example_world) (Operation req_echo_elsewhere) = Some echo_Process"
    by (simp add: req_echo_elsewhere_def example_simps)
  have h: "echo_Process req_echo_elsewhere =
             (req_echo_elsewhere, Fresh (ReturnData (BodyBytes ''hi'') []))"
    by (simp add: req_echo_elsewhere_def example_simps)
  have n: "Fresh (ReturnData (BodyBytes ''hi'') []) \<noteq> NoReply"
    by simp
  have e: "From (ReturnData (BodyBytes ''hi'') []) = []"
    by (simp add: example_simps)
  have u: "uid (self example_world) = ''Server''"
    by (simp add: example_simps)
  have q: "WriteChan (conns (apiHandle_req example_world req_echo_elsewhere) 0) =
     [\<lparr>Body = BodyBytes ''hi'', Operation = ''echo'', UID = [], From = ''elsewhere'',
       To = ''client1'', Status = 0\<rparr>]"
    unfolding apiHandle_req_reply [OF a h n]
    by (simp add: Let_def WriteChan_send_def req_echo_elsewhere_def example_simps)
  show ?thesis
    using a h e u q by simp
qed

section \<open>Properties of Close\<close>

lemma Close_listed_absent:
  "u \<in> set nodeuid \<Longrightarrow> connPool (self w) u = None \<Longrightarrow>
   Close_listed w nodeuid = Inl NilPointerDereference"
proof (induction nodeuid arbitrary: w)
  case Nil
  then show ?case by simp
next
  case (Cons v vs)
  show ?case
  proof (cases "connPool (self w) v")
    case None
    then show ?thesis by simp
  next
    case (Some c)
    then have "u \<noteq> v"
      using Cons.prems by auto
    then have "u \<in> set vs"
      using Cons.prems by simp
    then show ?thesis
      using Some Cons.prems(2) \<open>u \<noteq> v\<close> by (simp add: Let_def Cons.IH)
  qed
qed

lemma Close_listed_present:
  "distinct nodeuid \<Longrightarrow> set nodeuid \<subseteq> dom (connPool (self w)) \<Longrightarrow>
   Close_listed w nodeuid =
     Inr (w\<lparr>conns := (\<lambda>r. if \<exists>u \<in> set nodeuid. connPool (self w) u = Some r
                            then conn_Close (conns w r) else conns w r),
            self := (self w)\<lparr>connPool := connPool (self w) |` (- set nodeuid)\<rparr>\<rparr>)"
proof (induction nodeuid arbitrary: w)
  case Nil
  then show ?case by simp
next
  case (Cons v vs)
  then obtain c where c: "connPool (self w) v = Some c"
    by auto
  let ?w = "w\<lparr>conns := (conns w)(c := conn_Close (conns w c)),
              self := (self w)\<lparr>connPool := (connPool (self w))(v := None)\<rparr>\<rparr>"
  have d: "distinct vs" and v: "v \<notin> set vs"
    using Cons.prems(1) by simp_all
  have sub: "set vs \<subseteq> dom (connPool (self ?w))"
    using Cons.prems(2) v by auto
  have step: "Close_listed w (v # vs) = Close_listed ?w vs"
    using c by (simp add: Let_def)
  have pool: "connPool (self ?w) |` (- set vs) = connPool (self w) |` (- set (v # vs))"
    by (auto simp add: fun_eq_iff restrict_map_def)
  have cs: "(\<lambda>r. if \<exists>u \<in> set vs. connPool (self ?w) u = Some r
                 then conn_Close (conns ?w r) else conns ?w r) =
            (\<lambda>r. if \<exists>u \<in> set (v # vs). connPool (self w) u = Some r
                 then conn_Close (conns w r) else conns w r)"
    using c v by (auto simp add: fun_eq_iff conn_Close_twice)
  show ?case
    unfolding step Cons.IH [OF d sub] using pool cs by simp
qed

text \<open>
  Claim C9 as stated fails.  Closing the one listed connection \<open>client1\<close> of the example
  node also sets the can-close flag, which was false.  And a list that names the present
  UID \<open>client1\<close> twice makes \<open>Close\<close> panic, the entry being gone at the second lookup.
\<close>

theorem Close_frame_counterexample:
  "connPool (self example_world) ''client1'' = Some 0 \<and>
   canClose (self example_world) = False \<and>
   map_sum id (canClose \<circ> self) (Close example_world [''client1'']) = Inr True \<and>
   Close example_world [''client1'', ''client1''] = Inl NilPointerDereference"
  by (simp add: Close_def Let_def example_world_def connPool_example_node
      canClose_example_node split: option.splits)

text \<open>
  Claim C9, amended.  For a non-empty list of distinct UIDs that all have an entry in the
  pool, \<open>Close\<close> returns normally; it closes every connection that a listed UID refers
  to and leaves the other connections as they were; it removes the listed UIDs from the
  pool and keeps the entries of the unlisted ones; it sets the can-close flag; every
  other field of the node, the listener apart, is unchanged.  Of the listener \<open>l\<close> after
  the call nothing is said.
\<close>

theorem Close_listed_effect:
  assumes "nodeuid \<noteq> []" and "distinct nodeuid"
      and "set nodeuid \<subseteq> dom (connPool (self w))"
  shows "\<exists>l. Close w nodeuid =
     Inr (w\<lparr>conns := (\<lambda>r. if \<exists>u \<in> set nodeuid. connPool (self w) u = Some r
                            then conn_Close (conns w r) else conns w r),
            self := (self w)\<lparr>listener := l,
                              canClose := True,
                              connPool := connPool (self w) |` (- set nodeuid)\<rparr>\<rparr>)"
proof (cases "listener (self w)")
  case None
  then have "Close w nodeuid =
     Inr (w\<lparr>conns := (\<lambda>r. if \<exists>u \<in> set nodeuid. connPool (self w) u = Some r
                            then conn_Close (conns w r) else conns w r),
            self := (self w)\<lparr>listener := None,
                              canClose := True,
                              connPool := connPool (self w) |` (- set nodeuid)\<rparr>\<rparr>)"
    using assms by (simp add: Close_def Let_def Close_listed_present cong: if_cong)
  then show ?thesis ..
next
  case (Some a)
  then have "Close w nodeuid =
     Inr (w\<lparr>conns := (\<lambda>r. if \<exists>u \<in> set nodeuid. connPool (self w) u = Some r
                            then conn_Close (conns w r) else conns w r),
            self := (self w)\<lparr>listener := Some (Listener False),
                              canClose := True,
                              connPool := connPool (self w) |` (- set nodeuid)\<rparr>\<rparr>)"
    using assms by (simp add: Close_def Let_def Close_listed_present cong: if_cong)
  then show ?thesis ..
qed

theorem Close_listed_effect_witness:
  "[''client2'', ''client1''] \<noteq> [] \<and> distinct [''client2'', ''client1''] \<and>
   set [''client2'', ''client1''] \<subseteq> dom (connPool (self example_world)) \<and>
   (\<exists>l. Close example_world [''client2'', ''client1''] =
     Inr (example_world
       \<lparr>conns := (\<lambda>r. if \<exists>u \<in> set [''client2'', ''client1''].
                            connPool (self example_world) u = Some r
                       then conn_Close (conns example_world r)
                       else conns example_world r),
        self := (self example_world)
          \<lparr>listener := l,
           canClose := True,
           connPool := connPool (self example_world) |` (- set [''client2'', ''client1''])\<rparr>\<rparr>))"
proof -
  have n: "[''client2'', ''client1''] \<noteq> []"
    by simp
  have d: "distinct [''client2'', ''client1'']"
    by simp
  have s: "set [''client2'', ''client1''] \<subseteq> dom (connPool (self example_world))"
    by (simp add: example_simps)
  show ?thesis
    using n d s Close_listed_effect [OF n d s] by blast
qed

text \<open>
  Claim C10.  \<open>Close\<close> with a UID list returns normally only if every listed UID has an
  entry in the pool: a listed UID without an entry makes the call end in the nil
  dereference, wherever it stands in the list.
\<close>

theorem Close_needs_every_uid:
  assumes "u \<in> set nodeuid" and "connPool (self w) u = None"
  shows "Close w nodeuid = Inl NilPointerDereference"
proof -
  have "nodeuid \<noteq> []"
    using assms(1) by auto
  then show ?thesis
    using assms by (simp add: Close_def Let_def Close_listed_absent split: option.splits)
qed

theorem Close_needs_every_uid_witness:
  "''ghost'' \<in> set [''client1'', ''ghost''] \<and>
   connPool (self example_world) ''client1'' = Some 0 \<and>
   connPool (self example_world) ''ghost'' = None \<and>
   Close example_world [''client1'', ''ghost''] = Inl NilPointerDereference"
proof -
  have m: "''ghost'' \<in> set [''client1'', ''ghost'']"
    by simp
  have p: "connPool (self example_world) ''client1'' = Some 0"
    by (simp add: example_simps)
  have g: "connPool (self example_world) ''ghost'' = None"
    by (simp add: example_simps)
  show ?thesis
    using m p g Close_needs_every_uid [OF m g] by blast
qed

section \<open>Properties of the receive path\<close>

lemma decode_NetData_From:
  "From (decode_NetData intSize conn protoNetData) = GetFrom protoNetData"
  by (simp add: decode_NetData_def Let_def)

text \<open>
  Claim C1 at a payload whose decoded \<open>From\<close> is empty, received on the connection of
  the peer \<open>client1\<close>: the message that \<open>save\<close> publishes on the inbound queue, and the
  one that \<open>ProtoNetData2\<close> returns, have an empty \<open>From\<close>, not \<open>client1\<close>.  The test of
  \<open>From\<close> runs on the fresh message, before the decoded fields are assigned, and the
  assignment of \<open>From\<close> that follows overwrites the peer UID.
\<close>

theorem save_publishes_empty_From:
  "TmpBuffer (conns example_world 0) = ''frame'' \<and>
   example_unpack ''frame'' = ([''frame''], []) \<and>
   example_unmarshal ''frame'' = Some example_proto \<and>
   GetFrom example_proto = [] \<and>
   Connect.UID (conns example_world 0) = ''client1'' \<and>
   map From (apiReadChan (self (save 64 example_unpack example_unmarshal example_world 0)))
     = [[]] \<and>
   From (fst (ProtoNetData2 64 example_unmarshal ''frame'' (conns example_world 0))) = [] \<and>
   snd (ProtoNetData2 64 example_unmarshal ''frame'' (conns example_world 0)) = None"
  by (simp add: save_def ProtoNetData2_def decode_NetData_From example_unpack_def
      example_unmarshal_def example_proto_def GetFrom_def example_world_def example_conn_def
      apiReadChan_example_node Let_def)

end
